theory Spec2Isabelle
  imports Main "HOL-Library.Multiset" "HOL-Library.Sublist"
begin

section \<open>Arrays, slices and the shuffle\<close>

text \<open>
  The evaluation notebook (5.2) works on \<open>data\<close>, an array of samples indexed along its
  first axis. An array is a list of samples here. Every slice bound in the notebook is a
  product of naturals, so only Python's slicing with bounds \<open>0 \<le> a, b\<close> is needed:
  \<open>xs[a:b]\<close> clamps both bounds to the length and is empty when \<open>b \<le> a\<close>.
\<close>

definition slice :: "nat \<Rightarrow> nat \<Rightarrow> 'a list \<Rightarrow> 'a list" where
  \<comment> \<open>\<open>xs[a:b]\<close>\<close>
  "slice a b xs = drop a (take b xs)"

definition slice_to :: "nat \<Rightarrow> 'a list \<Rightarrow> 'a list" where
  \<comment> \<open>\<open>xs[:b]\<close>\<close>
  "slice_to b xs = take b xs"

definition slice_from :: "nat \<Rightarrow> 'a list \<Rightarrow> 'a list" where
  \<comment> \<open>\<open>xs[a:]\<close>\<close>
  "slice_from a xs = drop a xs"

datatype error = ZeroDivisionError | TypeError

text \<open>
  \<open>np.concatenate(arrays, axis)\<close> joins a sequence of arrays along an axis, the first
  one when no axis is given. The notebook calls it in two ways.

  The hold-out cell passes its two arrays as one list, \<open>np.concatenate([x, y])\<close>: the join
  of the two in the order written. This is \<open>np_concatenate\<close>.

  The K-fold cell writes \<open>np.concatenate(data[:a], data[b:])\<close>. The first slice is taken
  for the sequence of arrays and the second for the axis. An axis has to be an integer
  and an array of samples is none, so numpy raises \<open>TypeError\<close> before it joins anything,
  whatever the two slices hold. This is \<open>np_concatenate_axis\<close>.
\<close>

definition np_concatenate :: "'a list list \<Rightarrow> 'a list" where
  "np_concatenate arrays = concat arrays"

definition np_concatenate_axis :: "'a list \<Rightarrow> 'a list \<Rightarrow> error + 'a list" where
  "np_concatenate_axis arrays axis = Inl TypeError"

text \<open>
  \<open>np.random.shuffle(data)\<close> reorders the samples in place. Which reordering it picks is
  the random generator's business; it is taken as an argument \<open>p\<close> here, the list of
  old positions in their new order: the sample at new position \<open>j\<close> is the old sample
  at position \<open>p ! j\<close>. A generator only ever produces a permutation of the positions,
  which is what \<open>is_permutation\<close> says.
\<close>

definition is_permutation :: "nat list \<Rightarrow> nat \<Rightarrow> bool" where
  "is_permutation p n = (sort p = [0..<n])"

definition np_random_shuffle :: "nat list \<Rightarrow> 'a list \<Rightarrow> 'a list" where
  "np_random_shuffle p xs = map (\<lambda>i. xs ! i) p"

definition positions :: "'a list \<Rightarrow> nat list" where
  \<comment> \<open>the sample positions of an array, \<open>range(len(xs))\<close>\<close>
  "positions xs = [0..<length xs]"

section \<open>The model object and the notebook's variables\<close>

datatype 'a call = Train "'a list" | Evaluate "'a list"

text \<open>
  Modelled from the spec: \<open>get_model\<close>, \<open>model.train\<close> and \<open>model.evaluate\<close> (written
  \<open>model.evaluation\<close> once in the hold-out cell) are called by the notebook and defined
  nowhere in the repository. The spec describes the model as an opaque function owned by
  the training and evaluation routines, whose internal parameters are mutated only by the
  training call. So the collaborator is a record of three unknown functions and of
  \<open>np.average\<close>: a fresh model's parameters, the parameters after training on a data set,
  and the score of given parameters on a data set.
\<close>

record ('a, 'p, 's) framework =
  get_model :: "'p"
  train :: "'p \<Rightarrow> 'a list \<Rightarrow> 'p"
  evaluate :: "'p \<Rightarrow> 'a list \<Rightarrow> 's"
  np_average :: "'s list \<Rightarrow> 's"

text \<open>
  The notebook's variables. \<open>calls\<close> is not a variable: it records, in order, every
  training and evaluation run that was started and the data it was given.
\<close>

record ('a, 'p, 's) workflow =
  data :: "'a list"
  test_data :: "'a list"
  num_validation_samples :: nat
  validation_data :: "'a list"
  training_data :: "'a list"
  model :: "'p"
  validation_score :: "'s"
  validation_scores :: "'s list"
  test_score :: "'s"
  calls :: "'a call list"

text \<open>
  Modelled from the spec: the two method calls on the current model. Training replaces the
  model's parameters; evaluation returns a score and leaves the parameters as they are.
\<close>

definition model_train ::
  "('a, 'p, 's) framework \<Rightarrow> 'a list \<Rightarrow> ('a, 'p, 's) workflow \<Rightarrow> ('a, 'p, 's) workflow" where
  "model_train fw d s = s\<lparr>model := train fw (model s) d, calls := calls s @ [Train d]\<rparr>"

definition model_evaluate ::
  "('a, 'p, 's) framework \<Rightarrow> 'a list \<Rightarrow> ('a, 'p, 's) workflow \<Rightarrow> 's \<times> ('a, 'p, 's) workflow" where
  "model_evaluate fw d s = (evaluate fw (model s) d, s\<lparr>calls := calls s @ [Evaluate d]\<rparr>)"

section \<open>Simple hold-out validation (cell 4f039983)\<close>

text \<open>
  The cell, statement by statement. The notebook fixes \<open>num_validation_samples = 10000\<close>;
  the count is the argument \<open>n\<close> here. \<open>holdout_split\<close> is the cell up to the definition of
  the training set, \<open>holdout_cell\<close> the whole cell.
\<close>

definition holdout_split ::
  "nat \<Rightarrow> nat list \<Rightarrow> ('a, 'p, 's) workflow \<Rightarrow> ('a, 'p, 's) workflow" where
  "holdout_split n p s =
    (let s1 = s\<lparr>num_validation_samples := n\<rparr>;
         s2 = s1\<lparr>data := np_random_shuffle p (data s1)\<rparr>;
         s3 = s2\<lparr>validation_data := slice_to (num_validation_samples s2) (data s2)\<rparr>;
         s4 = s3\<lparr>data := slice_from (num_validation_samples s3) (data s3)\<rparr>
     in s4\<lparr>training_data := data s4\<rparr>)"

definition retraining_set :: "('a, 'p, 's) workflow \<Rightarrow> 'a list" where
  \<comment> \<open>\<open>np.concatenate([training_data, validation_data])\<close>\<close>
  "retraining_set s = np_concatenate [training_data s, validation_data s]"

definition holdout_cell ::
  "('a, 'p, 's) framework \<Rightarrow> nat \<Rightarrow> nat list \<Rightarrow> ('a, 'p, 's) workflow \<Rightarrow> ('a, 'p, 's) workflow" where
  "holdout_cell fw n p s =
    (let s5 = holdout_split n p s;
         s6 = model_train fw (training_data s5) (s5\<lparr>model := get_model fw\<rparr>);
         (v, s7) = model_evaluate fw (validation_data s6) s6;
         s8 = s7\<lparr>validation_score := v\<rparr>;
         s9 = model_train fw (retraining_set s8) (s8\<lparr>model := get_model fw\<rparr>);
         (t, s10) = model_evaluate fw (test_data s9) s9
     in s10\<lparr>test_score := t\<rparr>)"

definition holdout_notebook ::
  "('a, 'p, 's) framework \<Rightarrow> nat list \<Rightarrow> ('a, 'p, 's) workflow \<Rightarrow> ('a, 'p, 's) workflow" where
  "holdout_notebook fw p s = holdout_cell fw 10000 p s"

section \<open>K-fold validation (cell 15ea261f)\<close>

text \<open>
  A cell that raises stops there, and the notebook's variables keep what they held at that
  point. So a cell ends either with the exception and the variables at the raise (\<open>Inl\<close>)
  or with the variables after its last statement (\<open>Inr\<close>).
\<close>

type_synonym ('a, 'p, 's) outcome = "(error \<times> ('a, 'p, 's) workflow) + ('a, 'p, 's) workflow"

text \<open>
  The two partitions of fold \<open>fld\<close> (the loop variable \<open>fold\<close>), as the loop body
  computes them from \<open>num_validation_samples\<close> (\<open>nvs\<close>) and the shuffled data. The
  validation partition is a slice. The training partition is the two-argument call of
  \<open>np.concatenate\<close> on the slices before and after it.
\<close>

definition fold_validation :: "nat \<Rightarrow> nat \<Rightarrow> 'a list \<Rightarrow> 'a list" where
  "fold_validation nvs fld xs = slice (nvs * fld) (nvs * (fld + 1)) xs"

definition fold_training :: "nat \<Rightarrow> nat \<Rightarrow> 'a list \<Rightarrow> error + 'a list" where
  "fold_training nvs fld xs =
     np_concatenate_axis (slice_to (nvs * fld) xs) (slice_from (nvs * (fld + 1)) xs)"

definition kfold_body ::
  "('a, 'p, 's) framework \<Rightarrow> nat \<Rightarrow> ('a, 'p, 's) workflow \<Rightarrow> ('a, 'p, 's) outcome" where
  "kfold_body fw fld s =
    (let s1 = s\<lparr>validation_data := fold_validation (num_validation_samples s) fld (data s)\<rparr>
     in case fold_training (num_validation_samples s1) fld (data s1) of
          Inl e \<Rightarrow> Inl (e, s1)
        | Inr joined \<Rightarrow>
            (let s2 = s1\<lparr>training_data := joined\<rparr>;
                 s3 = model_train fw (training_data s2) (s2\<lparr>model := get_model fw\<rparr>);
                 (v, s4) = model_evaluate fw (validation_data s3) s3;
                 s5 = s4\<lparr>validation_score := v\<rparr>
             in Inr (s5\<lparr>validation_scores := validation_scores s5 @ [validation_score s5]\<rparr>)))"

fun kfold_loop ::
  "('a, 'p, 's) framework \<Rightarrow> nat list \<Rightarrow> ('a, 'p, 's) workflow \<Rightarrow> ('a, 'p, 's) outcome" where
  \<comment> \<open>\<open>for fold in range(k)\<close>, over the list of the folds still to run\<close>
  "kfold_loop fw [] s = Inr s"
| "kfold_loop fw (fld # folds) s =
     (case kfold_body fw fld s of
        Inl e \<Rightarrow> Inl e
      | Inr s' \<Rightarrow> kfold_loop fw folds s')"

text \<open>
  The cell in two parts, with the notebook's \<open>k = 4\<close> as the argument \<open>k\<close>:
  \<open>kfold_validation\<close> is the cell up to the average of the fold scores, \<open>kfold_cell\<close> adds
  the final model. The floor division \<open>len(data) // k\<close> raises for \<open>k = 0\<close>.
\<close>

definition kfold_validation ::
  "('a, 'p, 's) framework \<Rightarrow> nat \<Rightarrow> nat list \<Rightarrow> ('a, 'p, 's) workflow
     \<Rightarrow> ('a, 'p, 's) outcome" where
  "kfold_validation fw k p s =
    (if k = 0 then Inl (ZeroDivisionError, s)
     else
       let s1 = s\<lparr>num_validation_samples := length (data s) div k\<rparr>;
           s2 = s1\<lparr>data := np_random_shuffle p (data s1)\<rparr>;
           s3 = s2\<lparr>validation_scores := []\<rparr>
       in case kfold_loop fw [0..<k] s3 of
            Inl e \<Rightarrow> Inl e
          | Inr s4 \<Rightarrow> Inr (s4\<lparr>validation_score := np_average fw (validation_scores s4)\<rparr>))"

definition kfold_cell ::
  "('a, 'p, 's) framework \<Rightarrow> nat \<Rightarrow> nat list \<Rightarrow> ('a, 'p, 's) workflow
     \<Rightarrow> ('a, 'p, 's) outcome" where
  "kfold_cell fw k p s =
    (case kfold_validation fw k p s of
       Inl e \<Rightarrow> Inl e
     | Inr s5 \<Rightarrow>
         (let s6 = model_train fw (data s5) (s5\<lparr>model := get_model fw\<rparr>);
              (t, s7) = model_evaluate fw (test_data s6) s6
          in Inr (s7\<lparr>test_score := t\<rparr>)))"

definition kfold_notebook ::
  "('a, 'p, 's) framework \<Rightarrow> nat list \<Rightarrow> ('a, 'p, 's) workflow \<Rightarrow> ('a, 'p, 's) outcome" where
  "kfold_notebook fw p s = kfold_cell fw 4 p s"

definition validation_blocks :: "nat \<Rightarrow> 'a list \<Rightarrow> 'a list list" where
  \<comment> \<open>the validation partitions of one pass over \<open>xs\<close>, fold by fold\<close>
  "validation_blocks k xs = map (\<lambda>fld. fold_validation (length xs div k) fld xs) [0..<k]"

section \<open>Iterated K-fold validation\<close>

text \<open>
  Modelled from the spec: the notebook describes iterated K-fold validation in prose only
  (apply K-fold validation several times, shuffling the data every time before splitting
  it \<open>K\<close> ways; the final score is the average of the scores of every run). The driver
  below repeats the cell's shuffle and fold loop once per permutation in \<open>ps\<close>, so
  \<open>P = length ps\<close>, and collects the fold scores of every pass.
\<close>

fun iterated_kfold ::
  "('a, 'p, 's) framework \<Rightarrow> nat \<Rightarrow> nat list list \<Rightarrow> ('a, 'p, 's) workflow
     \<Rightarrow> (error \<times> ('a, 'p, 's) workflow) + ('s list \<times> ('a, 'p, 's) workflow)" where
  "iterated_kfold fw k [] s = Inr ([], s)"
| "iterated_kfold fw k (p # ps) s =
     (case kfold_validation fw k p s of
        Inl e \<Rightarrow> Inl e
      | Inr s1 \<Rightarrow>
          (case iterated_kfold fw k ps s1 of
             Inl e \<Rightarrow> Inl e
           | Inr (scores, s2) \<Rightarrow> Inr (validation_scores s1 @ scores, s2)))"

fun is_training :: "'a call \<Rightarrow> bool" where
  "is_training (Train d) = True"
| "is_training (Evaluate d) = False"

definition training_runs :: "'a call list \<Rightarrow> nat" where
  "training_runs cs = length (filter is_training cs)"

definition evaluation_runs :: "'a call list \<Rightarrow> nat" where
  "evaluation_runs cs = length (filter (\<lambda>c. \<not> is_training c) cs)"

section \<open>The convnet of notebook 5.1\<close>

text \<open>
  The notebook builds its network from Keras layers and prints \<open>model.summary()\<close>. The
  layer lists and the printed tables are the notebook's; a shape leaves out the batch
  dimension, printed as \<open>None\<close>.
\<close>

datatype activation = Relu | Softmax

datatype layer =
    Conv2D nat "nat \<times> nat" activation
  | MaxPooling2D "nat \<times> nat"
  | Flatten
  | Dense nat activation

definition input_shape :: "nat list" where
  "input_shape = [28, 28, 1]"

definition convnet_layers :: "layer list" where
  \<comment> \<open>5.1, cell 4545d540\<close>
  "convnet_layers =
    [Conv2D 32 (3, 3) Relu,
     MaxPooling2D (2, 2),
     Conv2D 64 (3, 3) Relu,
     MaxPooling2D (2, 2),
     Conv2D 64 (3, 3) Relu]"

definition classifier_layers :: "layer list" where
  \<comment> \<open>5.1, cell 7c1b82dc\<close>
  "classifier_layers = [Flatten, Dense 64 Relu, Dense 10 Softmax]"

definition functional_layers :: "layer list" where
  \<comment> \<open>the functional-API variant of the notebook: \<open>kernel_size=3\<close>, \<open>pool_size=2\<close>\<close>
  "functional_layers =
    [Conv2D 32 (3, 3) Relu,
     MaxPooling2D (2, 2),
     Conv2D 64 (3, 3) Relu,
     MaxPooling2D (2, 2),
     Conv2D 128 (3, 3) Relu,
     Flatten,
     Dense 10 Softmax]"

text \<open>The printed tables: output shape and parameter count of each layer, and the total.\<close>

definition printed_convnet :: "(nat list \<times> nat) list" where
  "printed_convnet =
    [([26, 26, 32], 320),
     ([13, 13, 32], 0),
     ([11, 11, 64], 18496),
     ([5, 5, 64], 0),
     ([3, 3, 64], 36928)]"

definition printed_convnet_total :: nat where
  "printed_convnet_total = 55744"

definition printed_classifier :: "(nat list \<times> nat) list" where
  "printed_classifier =
    [([576], 0),
     ([64], 36928),
     ([10], 650)]"

definition printed_total :: nat where
  "printed_total = 93322"

definition printed_functional :: "(nat list \<times> nat) list" where
  "printed_functional =
    [([26, 26, 32], 320),
     ([13, 13, 32], 0),
     ([11, 11, 64], 18496),
     ([5, 5, 64], 0),
     ([3, 3, 128], 73856),
     ([1152], 0),
     ([10], 11530)]"

definition printed_functional_total :: nat where
  "printed_functional_total = 104202"

text \<open>
  Modelled from the spec: the shape bookkeeping is done inside Keras, which is not part of
  the repository. Following the spec, an unpadded convolution with kernel size \<open>k\<close> takes
  a spatial size \<open>s\<close> to \<open>s - (k - 1)\<close>, and a pooling stage with window \<open>w\<close> takes it to
  \<open>s div w\<close>. A kernel larger than its input, a kernel of size 0 and a window of size 0
  are shape mismatches, which the framework reports.
\<close>

definition conv_dim :: "nat \<Rightarrow> nat \<Rightarrow> nat option" where
  "conv_dim k s = (if 1 \<le> k \<and> k \<le> s then Some (s - (k - 1)) else None)"

definition pool_dim :: "nat \<Rightarrow> nat \<Rightarrow> nat option" where
  "pool_dim w s = (if w = 0 then None else Some (s div w))"

fun output_shape :: "layer \<Rightarrow> nat list \<Rightarrow> nat list option" where
  "output_shape (Conv2D f (kh, kw) a) [h, w, c] =
     (case (conv_dim kh h, conv_dim kw w) of
        (Some h', Some w') \<Rightarrow> Some [h', w', f]
      | _ \<Rightarrow> None)"
| "output_shape (MaxPooling2D (ph, pw)) [h, w, c] =
     (case (pool_dim ph h, pool_dim pw w) of
        (Some h', Some w') \<Rightarrow> Some [h', w', c]
      | _ \<Rightarrow> None)"
| "output_shape Flatten shape = Some [prod_list shape]"
| "output_shape (Dense u a) [n] = Some [u]"
| "output_shape _ _ = None"

text \<open>
  Modelled from the spec: the parameter count of a layer, also Keras's own. A convolution
  with \<open>f\<close> filters, a \<open>kh \<times> kw\<close> kernel and \<open>c\<close> input channels has one weight per kernel
  cell and input channel and one bias, per filter; a dense layer with \<open>u\<close> units on \<open>n\<close>
  inputs has \<open>n * u\<close> weights and \<open>u\<close> biases; pooling and flattening have none.
\<close>

fun param_count :: "layer \<Rightarrow> nat list \<Rightarrow> nat" where
  "param_count (Conv2D f (kh, kw) a) [h, w, c] = (kh * kw * c + 1) * f"
| "param_count (Dense u a) [n] = n * u + u"
| "param_count _ _ = 0"

fun summary :: "nat list \<Rightarrow> layer list \<Rightarrow> (nat list \<times> nat) list option" where
  "summary shape [] = Some []"
| "summary shape (l # ls) =
     (case output_shape l shape of
        None \<Rightarrow> None
      | Some shape' \<Rightarrow>
          (case summary shape' ls of
             None \<Rightarrow> None
           | Some rows \<Rightarrow> Some ((shape', param_count l shape) # rows)))"

definition total_params :: "(nat list \<times> nat) list \<Rightarrow> nat" where
  "total_params rows = sum_list (map snd rows)"

section \<open>A small instance\<close>

text \<open>
  A concrete collaborator and a concrete set of variables, for evaluating the cells: the
  model's parameters are a counter of the samples it was trained on.
\<close>

definition example_framework :: "(nat, nat, nat) framework" where
  "example_framework =
     \<lparr>get_model = 0,
      train = (\<lambda>m d. m + length d),
      evaluate = (\<lambda>m d. m + sum_list d),
      np_average = (\<lambda>scores. sum_list scores div length scores)\<rparr>"

definition example_workflow :: "nat list \<Rightarrow> (nat, nat, nat) workflow" where
  "example_workflow xs =
     \<lparr>data = xs, test_data = [20, 21], num_validation_samples = 0, validation_data = [],
      training_data = [], model = 0, validation_score = 0, validation_scores = [],
      test_score = 0, calls = []\<rparr>"

section \<open>Slicing lemmas\<close>

lemma take_nth: "b \<le> length xs \<Longrightarrow> take b xs = map (\<lambda>i. xs ! i) [0..<b]"
proof -
  assume b: "b \<le> length xs"
  have "map (\<lambda>i. xs ! i) [0..<b] = map (\<lambda>i. xs ! i) (take b [0..<length xs])"
    using b by simp
  also have "\<dots> = take b (map (\<lambda>i. xs ! i) [0..<length xs])"
    by (simp only: take_map)
  also have "\<dots> = take b xs"
    by (simp only: map_nth)
  finally show ?thesis by simp
qed

lemma drop_nth: "drop a xs = map (\<lambda>i. xs ! i) [a..<length xs]"
proof -
  have "drop a xs = drop a (map (\<lambda>i. xs ! i) [0..<length xs])"
    by (simp only: map_nth)
  then show ?thesis by (simp add: drop_map)
qed

lemma slice_nth: "b \<le> length xs \<Longrightarrow> slice a b xs = map (\<lambda>i. xs ! i) [a..<b]"
  by (simp add: slice_def take_nth drop_map)

lemma three_way_split:
  assumes "a \<le> b"
  shows "take a xs @ slice a b xs @ drop b xs = xs"
proof -
  have "take a (take b xs) = take a xs"
    using assms by (simp add: min_absorb1)
  then have "take a xs @ slice a b xs = take b xs"
    unfolding slice_def by (metis append_take_drop_id)
  then show ?thesis
    by (metis append_assoc append_take_drop_id)
qed


section \<open>The K-fold cell stops in its first fold\<close>

text \<open>
  The loop body assigns the validation partition and then calls \<open>np.concatenate\<close> with two
  arguments, which raises. So every run of the body ends there, before \<open>get_model()\<close>, and
  for \<open>k \<ge> 1\<close> the cell ends in fold 0 with \<open>training_data\<close>, \<open>model\<close> and the record of
  calls as they were.
\<close>

lemma fold_training_raises: "fold_training nvs fld xs = Inl TypeError"
  by (simp add: fold_training_def np_concatenate_axis_def)

lemma kfold_body_raises:
  "kfold_body fw fld s
     = Inl (TypeError, s\<lparr>validation_data := fold_validation (num_validation_samples s) fld (data s)\<rparr>)"
  by (simp add: kfold_body_def fold_training_raises)

lemma kfold_loop_raises:
  "kfold_loop fw (fld # folds) s
     = Inl (TypeError, s\<lparr>validation_data := fold_validation (num_validation_samples s) fld (data s)\<rparr>)"
  by (simp add: kfold_body_raises)

lemma kfold_validation_raises:
  assumes "1 \<le> k"
  shows "kfold_validation fw k p s
     = Inl (TypeError,
            s\<lparr>num_validation_samples := length (data s) div k,
              data := np_random_shuffle p (data s),
              validation_scores := [],
              validation_data :=
                fold_validation (length (data s) div k) 0 (np_random_shuffle p (data s))\<rparr>)"
proof -
  have "[0..<k] = 0 # [1..<k]"
    using assms by (simp add: upt_conv_Cons)
  then show ?thesis
    using assms by (simp add: kfold_validation_def kfold_body_raises)
qed

lemma kfold_cell_raises:
  assumes "1 \<le> k"
  shows "kfold_cell fw k p s
     = Inl (TypeError,
            s\<lparr>num_validation_samples := length (data s) div k,
              data := np_random_shuffle p (data s),
              validation_scores := [],
              validation_data :=
                fold_validation (length (data s) div k) 0 (np_random_shuffle p (data s))\<rparr>)"
  by (simp add: kfold_cell_def kfold_validation_raises [OF assms])

lemma iterated_kfold_raises:
  assumes "1 \<le> k"
  shows "iterated_kfold fw k (p # ps) s
     = Inl (TypeError,
            s\<lparr>num_validation_samples := length (data s) div k,
              data := np_random_shuffle p (data s),
              validation_scores := [],
              validation_data :=
                fold_validation (length (data s) div k) 0 (np_random_shuffle p (data s))\<rparr>)"
  by (simp add: kfold_validation_raises [OF assms])

section \<open>The partitions of one fold\<close>

lemma fold_bound:
  assumes "i < K" 
  shows "(length xs div K) * (i + 1) \<le> length xs"
proof -
  have "(length xs div K) * (i + 1) \<le> (length xs div K) * K"
    using assms by (intro mult_le_mono2) simp
  also have "\<dots> \<le> length xs" by simp
  finally show ?thesis .
qed

lemma fold_validation_length:
  assumes "i < K"
  shows "length (fold_validation (length xs div K) i xs) = length xs div K"
  using fold_bound [OF assms, of xs] by (simp add: fold_validation_def slice_def)

lemma fold_validation_positions:
  assumes "n * (i + 1) \<le> length xs"
  shows "fold_validation n i xs = map (\<lambda>j. xs ! j) (fold_validation n i (positions xs))"
proof -
  have "slice (n * i) (n * (i + 1)) (positions xs) = [n * i..<n * (i + 1)]"
    using assms by (simp add: slice_def positions_def)
  then show ?thesis
    using assms slice_nth [of "n * (i + 1)" xs "n * i"] by (simp add: fold_validation_def)
qed

lemma length_positions: "length (positions xs) = length xs"
  by (simp add: positions_def)

text \<open>
  What the join of the same two slices would be, had the cell passed them as one list the
  way the hold-out cell does: together with the validation partition it is the whole data
  set, every sample once.
\<close>

lemma one_list_join_partition:
  "mset (np_concatenate [slice_to (n * i) xs, slice_from (n * (i + 1)) xs])
     + mset (fold_validation n i xs) = mset xs"
proof -
  have "n * i \<le> n * (i + 1)" by simp
  from three_way_split [OF this, of xs]
  have "mset (take (n * i) xs @ slice (n * i) (n * (i + 1)) xs @ drop (n * (i + 1)) xs) = mset xs"
    by simp
  then show ?thesis
    by (simp add: fold_validation_def np_concatenate_def slice_to_def slice_from_def ac_simps)
qed

lemma one_list_join_cover:
  "set (np_concatenate [slice_to (n * i) xs, slice_from (n * (i + 1)) xs])
     \<union> set (fold_validation n i xs) = set xs"
  using one_list_join_partition [of n i xs] by (metis set_mset_mset set_mset_union)

text \<open>
  Claim C1. The claim has two halves. The validation partition of fold \<open>i < K\<close> has
  \<open>D div K\<close> samples: that holds (\<open>fold_validation_length\<close>). The training partition is to
  be \<open>data[:(D//K)*i]\<close> joined with \<open>data[(D//K)*(i+1):]\<close> and to cover the data set
  together with the validation partition: the cell's call
  \<open>np.concatenate(data[:a], data[b:])\<close> raises \<open>TypeError\<close> instead, for every fold and
  every data set, so no training partition is built. On 10 samples with the notebook's
  \<open>k = 4\<close> the cell stops in fold 0 with \<open>validation_data = [19, 18]\<close> and
  \<open>training_data\<close> never assigned.
\<close>

theorem kfold_training_partition_raises:
  "fold_training nvs i xs = Inl TypeError
   \<and> kfold_body fw i s
       = Inl (TypeError,
              s\<lparr>validation_data := fold_validation (num_validation_samples s) i (data s)\<rparr>)
   \<and> length [10, 11, 12, 13, 14, 15, 16, 17, 18, 19 :: nat] div 4 = 2
   \<and> fold_validation 2 0 [19, 18, 17, 16, 15, 14, 13, 12, 11, 10 :: nat] = [19, 18]
   \<and> fold_training 2 0 [19, 18, 17, 16, 15, 14, 13, 12, 11, 10 :: nat] = Inl TypeError
   \<and> kfold_cell example_framework 4 [9, 8, 7, 6, 5, 4, 3, 2, 1, 0]
         (example_workflow [10, 11, 12, 13, 14, 15, 16, 17, 18, 19])
       = Inl (TypeError,
              (example_workflow [10, 11, 12, 13, 14, 15, 16, 17, 18, 19])
                \<lparr>num_validation_samples := 2,
                 data := [19, 18, 17, 16, 15, 14, 13, 12, 11, 10],
                 validation_scores := [],
                 validation_data := [19, 18]\<rparr>)
   \<and> training_data ((example_workflow [10, 11, 12, 13, 14, 15, 16, 17, 18, 19])
                \<lparr>num_validation_samples := 2,
                 data := [19, 18, 17, 16, 15, 14, 13, 12, 11, 10],
                 validation_scores := [],
                 validation_data := [19, 18]\<rparr>) = []"
proof -
  have h: "1 \<le> (4::nat)"
    by simp
  have a: "length [10, 11, 12, 13, 14, 15, 16, 17, 18, 19 :: nat] div 4 = 2"
    by simp
  have b: "fold_validation 2 0 [19, 18, 17, 16, 15, 14, 13, 12, 11, 10 :: nat] = [19, 18]"
    by (simp add: fold_validation_def slice_def)
  have sh: "np_random_shuffle [9, 8, 7, 6, 5, 4, 3, 2, 1, 0]
              [10, 11, 12, 13, 14, 15, 16, 17, 18, 19 :: nat]
            = [19, 18, 17, 16, 15, 14, 13, 12, 11, 10]"
    by (simp add: np_random_shuffle_def)
  have d: "data (example_workflow [10, 11, 12, 13, 14, 15, 16, 17, 18, 19])
            = [10, 11, 12, 13, 14, 15, 16, 17, 18, 19]"
    by (simp add: example_workflow_def)
  have c: "kfold_cell example_framework 4 [9, 8, 7, 6, 5, 4, 3, 2, 1, 0]
         (example_workflow [10, 11, 12, 13, 14, 15, 16, 17, 18, 19])
       = Inl (TypeError,
              (example_workflow [10, 11, 12, 13, 14, 15, 16, 17, 18, 19])
                \<lparr>num_validation_samples := 2,
                 data := [19, 18, 17, 16, 15, 14, 13, 12, 11, 10],
                 validation_scores := [],
                 validation_data := [19, 18]\<rparr>)"
    using kfold_cell_raises [OF h, of example_framework "[9, 8, 7, 6, 5, 4, 3, 2, 1, 0]"
        "example_workflow [10, 11, 12, 13, 14, 15, 16, 17, 18, 19]"]
    by (simp only: d sh a b)
  have e: "training_data ((example_workflow [10, 11, 12, 13, 14, 15, 16, 17, 18, 19])
                \<lparr>num_validation_samples := 2,
                 data := [19, 18, 17, 16, 15, 14, 13, 12, 11, 10],
                 validation_scores := [],
                 validation_data := [19, 18]\<rparr>) = []"
    by (simp add: example_workflow_def)
  show ?thesis
    by (intro conjI fold_training_raises kfold_body_raises a b c e)
qed

section \<open>The validation blocks of one pass\<close>







section \<open>The samples past the last block\<close>

lemma remainder_length: "length (slice_from (length xs div K * K) xs) = length xs mod K"
  by (simp add: slice_from_def minus_div_mult_eq_mod)

lemma remainder_not_validated:
  assumes "i < K"
  shows "set (slice_from (n * K) (positions xs)) \<inter> set (fold_validation n i (positions xs)) = {}"
proof -
  have le: "n * (i + 1) \<le> n * K"
    using assms by (intro mult_le_mono2) simp
  have "set (take (n * (i + 1)) [0..<length xs]) \<subseteq> {0..<n * (i + 1)}"
    by (cases "n * (i + 1) \<le> length xs") auto
  then have "set (fold_validation n i (positions xs)) \<subseteq> {0..<n * (i + 1)}"
    using set_drop_subset [of "n * i" "take (n * (i + 1)) [0..<length xs]"]
    unfolding fold_validation_def slice_def positions_def by blast
  moreover have "set (slice_from (n * K) (positions xs)) \<subseteq> {n * K..}"
    by (auto simp: slice_from_def positions_def)
  ultimately show ?thesis using le by fastforce
qed

text \<open>
  With the one-list join, the samples past the last block would be the last samples of
  every fold's training partition.
\<close>

lemma one_list_join_remainder:
  assumes "i < K"
  shows "suffix (slice_from (n * K) xs)
           (np_concatenate [slice_to (n * i) xs, slice_from (n * (i + 1)) xs])"
proof -
  have "n * (i + 1) \<le> n * K"
    using assms by (intro mult_le_mono2) simp
  then have "drop (n * K) xs = drop (n * K - n * (i + 1)) (drop (n * (i + 1)) xs)"
    by simp
  then have "suffix (drop (n * K) xs) (drop (n * (i + 1)) xs)"
    by (metis suffix_drop)
  then show ?thesis
    by (simp add: slice_from_def slice_to_def np_concatenate_def suffix_appendI)
qed

text \<open>
  Claim C8. When \<open>D mod K \<noteq> 0\<close> the last \<open>D mod K\<close> samples are in no validation
  partition: that holds (\<open>remainder_not_validated\<close>, and C3). They are to be in the
  training partition of every fold: the cell builds no training partition, because its
  \<open>np.concatenate(data[:a], data[b:])\<close> raises \<open>TypeError\<close> in every fold. On 10 samples
  with \<open>k = 4\<close> the two samples past the last block are \<open>[11, 10]\<close>, the four validation
  blocks leave them out, and \<open>training_data\<close> is never assigned.
\<close>

theorem remainder_training_raises:
  "fold_training nvs i xs = Inl TypeError
   \<and> length [10, 11, 12, 13, 14, 15, 16, 17, 18, 19 :: nat] mod 4 = 2
   \<and> slice_from (length [10, 11, 12, 13, 14, 15, 16, 17, 18, 19 :: nat] div 4 * 4)
        [19, 18, 17, 16, 15, 14, 13, 12, 11, 10 :: nat] = [11, 10]
   \<and> validation_blocks 4 [19, 18, 17, 16, 15, 14, 13, 12, 11, 10 :: nat]
       = [[19, 18], [17, 16], [15, 14], [13, 12]]
   \<and> fold_training 2 0 [19, 18, 17, 16, 15, 14, 13, 12, 11, 10 :: nat] = Inl TypeError
   \<and> fold_training 2 1 [19, 18, 17, 16, 15, 14, 13, 12, 11, 10 :: nat] = Inl TypeError
   \<and> fold_training 2 2 [19, 18, 17, 16, 15, 14, 13, 12, 11, 10 :: nat] = Inl TypeError
   \<and> fold_training 2 3 [19, 18, 17, 16, 15, 14, 13, 12, 11, 10 :: nat] = Inl TypeError
   \<and> training_data (snd (projl (kfold_cell example_framework 4 [9, 8, 7, 6, 5, 4, 3, 2, 1, 0]
         (example_workflow [10, 11, 12, 13, 14, 15, 16, 17, 18, 19])))) = []"
proof -
  have a: "length [10, 11, 12, 13, 14, 15, 16, 17, 18, 19 :: nat] mod 4 = 2"
    by simp
  have b: "slice_from (length [10, 11, 12, 13, 14, 15, 16, 17, 18, 19 :: nat] div 4 * 4)
        [19, 18, 17, 16, 15, 14, 13, 12, 11, 10 :: nat] = [11, 10]"
    by (simp add: slice_from_def)
  have v: "validation_blocks 4 [19, 18, 17, 16, 15, 14, 13, 12, 11, 10 :: nat]
       = [[19, 18], [17, 16], [15, 14], [13, 12]]"
    by (simp add: validation_blocks_def fold_validation_def slice_def upt_rec)
  have "1 \<le> (4::nat)" by simp
  then have c: "training_data (snd (projl (kfold_cell example_framework 4
         [9, 8, 7, 6, 5, 4, 3, 2, 1, 0]
         (example_workflow [10, 11, 12, 13, 14, 15, 16, 17, 18, 19])))) = []"
    by (simp add: kfold_cell_raises example_workflow_def)
  show ?thesis
    by (intro conjI fold_training_raises a b v c)
qed

section \<open>The shuffle\<close>

lemma is_permutation_mset: "is_permutation p n \<Longrightarrow> mset p = mset [0..<n]"
  unfolding is_permutation_def by (metis mset_sort)

lemma is_permutation_length: "is_permutation p n \<Longrightarrow> length p = n"
  using is_permutation_mset [of p n] by (metis size_mset length_upt diff_zero)

lemma is_permutation_distinct: "is_permutation p n \<Longrightarrow> distinct p"
  using is_permutation_mset [of p n] by (metis distinct_upt mset_eq_imp_distinct_iff)

lemma shuffle_length: "is_permutation p (length xs) \<Longrightarrow> length (np_random_shuffle p xs) = length xs"
  by (simp add: np_random_shuffle_def is_permutation_length)

lemma shuffle_mset:
  assumes "is_permutation p (length xs)"
  shows "mset (np_random_shuffle p xs) = mset xs"
proof -
  have "mset (map (\<lambda>i. xs ! i) p) = image_mset (\<lambda>i. xs ! i) (mset p)"
    by simp
  also have "\<dots> = image_mset (\<lambda>i. xs ! i) (mset [0..<length xs])"
    using is_permutation_mset [OF assms] by simp
  also have "\<dots> = mset (map (\<lambda>i. xs ! i) [0..<length xs])"
    by simp
  also have "\<dots> = mset xs"
    by (simp only: map_nth)
  finally show ?thesis
    by (simp add: np_random_shuffle_def)
qed

lemma shuffle_distinct:
  assumes "is_permutation p (length xs)" and "distinct xs"
  shows "distinct (np_random_shuffle p xs)"
  using shuffle_mset [OF assms(1)] assms(2) by (metis mset_eq_imp_distinct_iff)

lemma example_permutation: "is_permutation [2, 0, 3, 1] (length [10, 11, 12, 13 :: nat])"
  by (simp add: is_permutation_def upt_rec)

section \<open>The hold-out cell\<close>

lemma holdout_split_fields:
  "validation_data (holdout_split n p s) = slice_to n (np_random_shuffle p (data s))"
  "training_data (holdout_split n p s) = slice_from n (np_random_shuffle p (data s))"
  "data (holdout_split n p s) = slice_from n (np_random_shuffle p (data s))"
  "num_validation_samples (holdout_split n p s) = n"
  "test_data (holdout_split n p s) = test_data s"
  "model (holdout_split n p s) = model s"
  "calls (holdout_split n p s) = calls s"
  by (simp_all add: holdout_split_def Let_def)

lemma holdout_cell_fields:
  "validation_data (holdout_cell fw n p s) = validation_data (holdout_split n p s)"
  "training_data (holdout_cell fw n p s) = training_data (holdout_split n p s)"
  "data (holdout_cell fw n p s) = data (holdout_split n p s)"
  "model (holdout_cell fw n p s) = train fw (get_model fw) (retraining_set (holdout_split n p s))"
  "validation_score (holdout_cell fw n p s)
     = evaluate fw (train fw (get_model fw) (training_data (holdout_split n p s)))
         (validation_data (holdout_split n p s))"
  "test_score (holdout_cell fw n p s)
     = evaluate fw (train fw (get_model fw) (retraining_set (holdout_split n p s))) (test_data s)"
  "calls (holdout_cell fw n p s)
     = calls s @ [Train (training_data (holdout_split n p s)),
                  Evaluate (validation_data (holdout_split n p s)),
                  Train (retraining_set (holdout_split n p s)),
                  Evaluate (test_data s)]"
  by (simp_all add: holdout_cell_def model_train_def model_evaluate_def Let_def retraining_set_def
      holdout_split_fields)

lemma retraining_set_mset:
  "mset (retraining_set (holdout_split n p s)) = mset (np_random_shuffle p (data s))"
proof -
  have "mset (drop n (np_random_shuffle p (data s)) @ take n (np_random_shuffle p (data s)))
      = mset (take n (np_random_shuffle p (data s)) @ drop n (np_random_shuffle p (data s)))"
    by (simp only: mset_append add.commute)
  then show ?thesis
    by (simp add: retraining_set_def np_concatenate_def holdout_split_fields slice_to_def
        slice_from_def)
qed

lemma example_holdout:
  "validation_data (holdout_cell example_framework 1 [2, 0, 3, 1] (example_workflow [10, 11, 12, 13]))
     = [12]"
  "training_data (holdout_cell example_framework 1 [2, 0, 3, 1] (example_workflow [10, 11, 12, 13]))
     = [10, 13, 11]"
  by (simp_all add: holdout_cell_fields holdout_split_fields slice_to_def slice_from_def
      np_random_shuffle_def example_workflow_def)

lemma example_retraining_set:
  "retraining_set (holdout_split 1 [2, 0, 3, 1] (example_workflow [10, 11, 12, 13]))
     = [10, 13, 11, 12]"
  by (simp add: retraining_set_def np_concatenate_def holdout_split_fields slice_to_def
      slice_from_def np_random_shuffle_def example_workflow_def)

text \<open>
  Claim C2. For a data set of size \<open>D\<close> and a validation count \<open>N \<le> D\<close>, the hold-out cell
  leaves \<open>N\<close> samples in \<open>validation_data\<close> and \<open>D - N\<close> in \<open>training_data\<close>. The two are
  drawn from the position ranges \<open>0, \<dots>, N - 1\<close> and \<open>N, \<dots>, D - 1\<close> of the shuffled data,
  which do not overlap; in terms of the data before the shuffle, they are the samples at
  the first \<open>N\<close> and at the remaining entries of the permutation, and no position is among
  both. So when no sample occurs twice in the data, the two sets of samples are disjoint.
\<close>

theorem holdout_split_sizes:
  assumes "is_permutation p (length (data s))" and "n \<le> length (data s)"
  shows "length (validation_data (holdout_cell fw n p s)) = n
       \<and> length (training_data (holdout_cell fw n p s)) = length (data s) - n
       \<and> validation_data (holdout_cell fw n p s)
           = map (\<lambda>i. np_random_shuffle p (data s) ! i) [0..<n]
       \<and> training_data (holdout_cell fw n p s)
           = map (\<lambda>i. np_random_shuffle p (data s) ! i) [n..<length (data s)]
       \<and> set [0..<n] \<inter> set [n..<length (data s)] = {}
       \<and> validation_data (holdout_cell fw n p s) = map (\<lambda>i. data s ! i) (slice_to n p)
       \<and> training_data (holdout_cell fw n p s) = map (\<lambda>i. data s ! i) (slice_from n p)
       \<and> set (slice_to n p) \<inter> set (slice_from n p) = {}
       \<and> (distinct (data s) \<longrightarrow>
            set (validation_data (holdout_cell fw n p s))
              \<inter> set (training_data (holdout_cell fw n p s)) = {})"
proof -
  let ?sh = "np_random_shuffle p (data s)"
  have len: "length ?sh = length (data s)"
    using assms(1) by (rule shuffle_length)
  have v: "validation_data (holdout_cell fw n p s) = take n ?sh"
    by (simp add: holdout_cell_fields holdout_split_fields slice_to_def)
  have t: "training_data (holdout_cell fw n p s) = drop n ?sh"
    by (simp add: holdout_cell_fields holdout_split_fields slice_from_def)
  have a: "length (validation_data (holdout_cell fw n p s)) = n"
    using assms(2) len by (simp add: v)
  have b: "length (training_data (holdout_cell fw n p s)) = length (data s) - n"
    using len by (simp add: t)
  have c: "validation_data (holdout_cell fw n p s) = map (\<lambda>i. ?sh ! i) [0..<n]"
    using assms(2) len take_nth [of n ?sh] by (simp add: v)
  have d: "training_data (holdout_cell fw n p s) = map (\<lambda>i. ?sh ! i) [n..<length (data s)]"
    using len drop_nth [of n ?sh] by (simp add: t)
  have e: "set [0..<n] \<inter> set [n..<length (data s)] = {}"
    by auto
  have c': "validation_data (holdout_cell fw n p s) = map (\<lambda>i. data s ! i) (slice_to n p)"
    by (simp add: v np_random_shuffle_def slice_to_def take_map)
  have d': "training_data (holdout_cell fw n p s) = map (\<lambda>i. data s ! i) (slice_from n p)"
    by (simp add: t np_random_shuffle_def slice_from_def drop_map)
  have "distinct (take n p @ drop n p)"
    using is_permutation_distinct [OF assms(1)] by simp
  then have e': "set (slice_to n p) \<inter> set (slice_from n p) = {}"
    unfolding slice_to_def slice_from_def by (simp only: distinct_append)
  have f: "distinct (data s) \<longrightarrow>
            set (validation_data (holdout_cell fw n p s))
              \<inter> set (training_data (holdout_cell fw n p s)) = {}"
  proof
    assume "distinct (data s)"
    then have "distinct (take n ?sh @ drop n ?sh)"
      using shuffle_distinct [OF assms(1)] by simp
    then show "set (validation_data (holdout_cell fw n p s))
              \<inter> set (training_data (holdout_cell fw n p s)) = {}"
      unfolding v t by (simp only: distinct_append)
  qed
  show ?thesis
    by (intro conjI a b c d e c' d' e' f)
qed

theorem holdout_split_sizes_witness:
  "is_permutation [2, 0, 3, 1] (length (data (example_workflow [10, 11, 12, 13])))
   \<and> 1 \<le> length (data (example_workflow [10, 11, 12, 13]))
   \<and> distinct (data (example_workflow [10, 11, 12, 13]))
   \<and> validation_data
        (holdout_cell example_framework 1 [2, 0, 3, 1] (example_workflow [10, 11, 12, 13])) = [12]
   \<and> training_data
        (holdout_cell example_framework 1 [2, 0, 3, 1] (example_workflow [10, 11, 12, 13]))
        = [10, 13, 11]
   \<and> length (training_data
        (holdout_cell example_framework 1 [2, 0, 3, 1] (example_workflow [10, 11, 12, 13])))
        = length (data (example_workflow [10, 11, 12, 13])) - 1
   \<and> set (validation_data
        (holdout_cell example_framework 1 [2, 0, 3, 1] (example_workflow [10, 11, 12, 13])))
        \<inter> set (training_data
        (holdout_cell example_framework 1 [2, 0, 3, 1] (example_workflow [10, 11, 12, 13]))) = {}"
proof -
  have h1: "is_permutation [2, 0, 3, 1] (length (data (example_workflow [10, 11, 12, 13])))"
    using example_permutation by (simp add: example_workflow_def)
  have h2: "1 \<le> length (data (example_workflow [10, 11, 12, 13]))"
    by (simp add: example_workflow_def)
  have h3: "distinct (data (example_workflow [10, 11, 12, 13]))"
    by (simp add: example_workflow_def)
  note c = holdout_split_sizes [OF h1 h2, of example_framework]
  note disjoint = c [THEN conjunct2, THEN conjunct2, THEN conjunct2, THEN conjunct2,
      THEN conjunct2, THEN conjunct2, THEN conjunct2, THEN conjunct2, THEN mp, OF h3]
  show ?thesis
    by (intro conjI h1 h2 h3 example_holdout c [THEN conjunct2, THEN conjunct1] disjoint)
qed

text \<open>
  Claim C9. The final model of the hold-out cell is trained on
  \<open>np.concatenate([training_data, validation_data])\<close>. As a multiset this is the shuffled
  data set: the split followed by the join loses no sample and duplicates none. Since the
  shuffle is a permutation, it is also the original data up to order.
\<close>

theorem retraining_set_is_shuffled_data:
  "calls (holdout_cell fw n p s)
     = calls s @ [Train (training_data (holdout_split n p s)),
                  Evaluate (validation_data (holdout_split n p s)),
                  Train (retraining_set (holdout_split n p s)),
                  Evaluate (test_data s)]
   \<and> retraining_set (holdout_split n p s)
       = slice_from n (np_random_shuffle p (data s)) @ slice_to n (np_random_shuffle p (data s))
   \<and> mset (retraining_set (holdout_split n p s)) = mset (np_random_shuffle p (data s))
   \<and> (is_permutation p (length (data s)) \<longrightarrow>
        mset (retraining_set (holdout_split n p s)) = mset (data s))"
proof -
  have a: "calls (holdout_cell fw n p s)
     = calls s @ [Train (training_data (holdout_split n p s)),
                  Evaluate (validation_data (holdout_split n p s)),
                  Train (retraining_set (holdout_split n p s)),
                  Evaluate (test_data s)]"
    by (rule holdout_cell_fields)
  have b: "retraining_set (holdout_split n p s)
       = slice_from n (np_random_shuffle p (data s)) @ slice_to n (np_random_shuffle p (data s))"
    by (simp add: retraining_set_def np_concatenate_def holdout_split_fields)
  have c: "mset (retraining_set (holdout_split n p s)) = mset (np_random_shuffle p (data s))"
    by (rule retraining_set_mset)
  have d: "is_permutation p (length (data s)) \<longrightarrow>
        mset (retraining_set (holdout_split n p s)) = mset (data s)"
    using shuffle_mset [of p "data s"] by (simp add: c)
  show ?thesis
    by (intro conjI a b c d)
qed

theorem retraining_set_is_shuffled_data_witness:
  "is_permutation [2, 0, 3, 1] (length (data (example_workflow [10, 11, 12, 13])))
   \<and> retraining_set (holdout_split 1 [2, 0, 3, 1] (example_workflow [10, 11, 12, 13]))
        = [10, 13, 11, 12]
   \<and> mset (retraining_set (holdout_split 1 [2, 0, 3, 1] (example_workflow [10, 11, 12, 13])))
        = mset (data (example_workflow [10, 11, 12, 13]))"
proof -
  have h1: "is_permutation [2, 0, 3, 1] (length (data (example_workflow [10, 11, 12, 13])))"
    using example_permutation by (simp add: example_workflow_def)
  note c = retraining_set_is_shuffled_data
      [of example_framework 1 "[2, 0, 3, 1]" "example_workflow [10, 11, 12, 13]"]
  show ?thesis
    by (intro conjI h1 example_retraining_set
        c [THEN conjunct2, THEN conjunct2, THEN conjunct2, THEN mp, OF h1])
qed

text \<open>
  Claim C6. The hold-out split is determined by the data set and the permutation the
  shuffle yields: two runs of the cell on the same data with the same permutation end
  with the same \<open>validation_data\<close> and the same \<open>training_data\<close>, whatever the other
  variables held before and whatever the model does; the two are the first \<open>n\<close> and the
  remaining samples of the shuffled data.
\<close>

theorem holdout_deterministic:
  assumes "data s1 = data s2"
  shows "validation_data (holdout_cell fw1 n p s1) = validation_data (holdout_cell fw2 n p s2)
       \<and> training_data (holdout_cell fw1 n p s1) = training_data (holdout_cell fw2 n p s2)
       \<and> validation_data (holdout_cell fw1 n p s1) = slice_to n (np_random_shuffle p (data s1))
       \<and> training_data (holdout_cell fw1 n p s1) = slice_from n (np_random_shuffle p (data s1))"
  using assms by (simp add: holdout_cell_fields holdout_split_fields)

theorem holdout_deterministic_witness:
  "data (example_workflow [10, 11, 12, 13])
     = data ((example_workflow [10, 11, 12, 13])\<lparr>test_data := [], model := 7, calls := [Train []]\<rparr>)
   \<and> example_workflow [10, 11, 12, 13]
     \<noteq> (example_workflow [10, 11, 12, 13])\<lparr>test_data := [], model := 7, calls := [Train []]\<rparr>
   \<and> validation_data
        (holdout_cell example_framework 1 [2, 0, 3, 1] (example_workflow [10, 11, 12, 13]))
     = validation_data
        (holdout_cell (example_framework\<lparr>get_model := 5\<rparr>) 1 [2, 0, 3, 1]
           ((example_workflow [10, 11, 12, 13])\<lparr>test_data := [], model := 7, calls := [Train []]\<rparr>))
   \<and> training_data
        (holdout_cell example_framework 1 [2, 0, 3, 1] (example_workflow [10, 11, 12, 13]))
     = training_data
        (holdout_cell (example_framework\<lparr>get_model := 5\<rparr>) 1 [2, 0, 3, 1]
           ((example_workflow [10, 11, 12, 13])\<lparr>test_data := [], model := 7, calls := [Train []]\<rparr>))"
proof -
  have h: "data (example_workflow [10, 11, 12, 13])
     = data ((example_workflow [10, 11, 12, 13])\<lparr>test_data := [], model := 7, calls := [Train []]\<rparr>)"
    by simp
  have ne: "example_workflow [10, 11, 12, 13]
     \<noteq> (example_workflow [10, 11, 12, 13])\<lparr>test_data := [], model := 7, calls := [Train []]\<rparr>"
    by (simp add: example_workflow_def)
  note c = holdout_deterministic [OF h, of example_framework 1 "[2, 0, 3, 1]"
      "example_framework\<lparr>get_model := 5\<rparr>"]
  show ?thesis
    by (intro conjI h ne c [THEN conjunct1] c [THEN conjunct2, THEN conjunct1])
qed

section \<open>Iterated K-fold validation: the number of runs\<close>

text \<open>
  Claim C5. \<open>P\<close> iterations of K-fold validation are to train and evaluate \<open>P \<times> K\<close>
  models. Every pass runs the fold loop of the K-fold cell, and that loop stops in fold 0
  of the first pass at \<open>np.concatenate(data[:a], data[b:])\<close>, before any model is
  fetched, trained or evaluated. With one pass, the notebook's \<open>k = 4\<close> and 8 samples,
  the iteration and the cell itself both end with \<open>TypeError\<close> and with no training run
  and no evaluation run made, where the claim counts \<open>1 \<times> 4 = 4\<close>.
\<close>

theorem iterated_kfold_raises_in_first_fold:
  "iterated_kfold example_framework 4 [[7, 6, 5, 4, 3, 2, 1, 0]]
       (example_workflow [10, 11, 12, 13, 14, 15, 16, 17])
     = Inl (TypeError,
            (example_workflow [10, 11, 12, 13, 14, 15, 16, 17])
              \<lparr>num_validation_samples := 2,
               data := [17, 16, 15, 14, 13, 12, 11, 10],
               validation_scores := [],
               validation_data := [17, 16]\<rparr>)
   \<and> kfold_cell example_framework 4 [7, 6, 5, 4, 3, 2, 1, 0]
       (example_workflow [10, 11, 12, 13, 14, 15, 16, 17])
     = Inl (TypeError,
            (example_workflow [10, 11, 12, 13, 14, 15, 16, 17])
              \<lparr>num_validation_samples := 2,
               data := [17, 16, 15, 14, 13, 12, 11, 10],
               validation_scores := [],
               validation_data := [17, 16]\<rparr>)
   \<and> training_runs (calls ((example_workflow [10, 11, 12, 13, 14, 15, 16, 17])
              \<lparr>num_validation_samples := 2,
               data := [17, 16, 15, 14, 13, 12, 11, 10],
               validation_scores := [],
               validation_data := [17, 16]\<rparr>)) = 0
   \<and> evaluation_runs (calls ((example_workflow [10, 11, 12, 13, 14, 15, 16, 17])
              \<lparr>num_validation_samples := 2,
               data := [17, 16, 15, 14, 13, 12, 11, 10],
               validation_scores := [],
               validation_data := [17, 16]\<rparr>)) = 0
   \<and> length [[7, 6, 5, 4, 3, 2, 1, 0 :: nat]] * 4 = 4"
proof -
  have h: "1 \<le> (4::nat)"
    by simp
  have n: "length [10, 11, 12, 13, 14, 15, 16, 17 :: nat] div 4 = 2"
    by simp
  have b: "fold_validation 2 0 [17, 16, 15, 14, 13, 12, 11, 10 :: nat] = [17, 16]"
    by (simp add: fold_validation_def slice_def)
  have sh: "np_random_shuffle [7, 6, 5, 4, 3, 2, 1, 0] [10, 11, 12, 13, 14, 15, 16, 17 :: nat]
            = [17, 16, 15, 14, 13, 12, 11, 10]"
    by (simp add: np_random_shuffle_def)
  have d: "data (example_workflow [10, 11, 12, 13, 14, 15, 16, 17])
            = [10, 11, 12, 13, 14, 15, 16, 17]"
    by (simp add: example_workflow_def)
  have i: "iterated_kfold example_framework 4 [[7, 6, 5, 4, 3, 2, 1, 0]]
       (example_workflow [10, 11, 12, 13, 14, 15, 16, 17])
     = Inl (TypeError,
            (example_workflow [10, 11, 12, 13, 14, 15, 16, 17])
              \<lparr>num_validation_samples := 2,
               data := [17, 16, 15, 14, 13, 12, 11, 10],
               validation_scores := [],
               validation_data := [17, 16]\<rparr>)"
    using iterated_kfold_raises [OF h, of example_framework "[7, 6, 5, 4, 3, 2, 1, 0]" "[]"
        "example_workflow [10, 11, 12, 13, 14, 15, 16, 17]"]
    by (simp only: d sh n b)
  have c: "kfold_cell example_framework 4 [7, 6, 5, 4, 3, 2, 1, 0]
       (example_workflow [10, 11, 12, 13, 14, 15, 16, 17])
     = Inl (TypeError,
            (example_workflow [10, 11, 12, 13, 14, 15, 16, 17])
              \<lparr>num_validation_samples := 2,
               data := [17, 16, 15, 14, 13, 12, 11, 10],
               validation_scores := [],
               validation_data := [17, 16]\<rparr>)"
    using kfold_cell_raises [OF h, of example_framework "[7, 6, 5, 4, 3, 2, 1, 0]"
        "example_workflow [10, 11, 12, 13, 14, 15, 16, 17]"]
    by (simp only: d sh n b)
  have t: "training_runs (calls ((example_workflow [10, 11, 12, 13, 14, 15, 16, 17])
              \<lparr>num_validation_samples := 2,
               data := [17, 16, 15, 14, 13, 12, 11, 10],
               validation_scores := [],
               validation_data := [17, 16]\<rparr>)) = 0"
    by (simp add: example_workflow_def training_runs_def)
  have e: "evaluation_runs (calls ((example_workflow [10, 11, 12, 13, 14, 15, 16, 17])
              \<lparr>num_validation_samples := 2,
               data := [17, 16, 15, 14, 13, 12, 11, 10],
               validation_scores := [],
               validation_data := [17, 16]\<rparr>)) = 0"
    by (simp add: example_workflow_def evaluation_runs_def)
  have l: "length [[7, 6, 5, 4, 3, 2, 1, 0 :: nat]] * 4 = 4"
    by simp
  show ?thesis
    by (intro conjI i c t e l)
qed

section \<open>What the calls on the model change\<close>

lemma model_evaluate_frame:
  "fst (model_evaluate fw d s) = evaluate fw (model s) d"
  "model (snd (model_evaluate fw d s)) = model s"
  "(snd (model_evaluate fw d s))\<lparr>calls := calls s\<rparr> = s"
  "calls (snd (model_evaluate fw d s)) = calls s @ [Evaluate d]"
  by (simp_all add: model_evaluate_def)

lemma model_train_frame:
  "model (model_train fw d s) = train fw (model s) d"
  "(model_train fw d s)\<lparr>model := model s, calls := calls s\<rparr> = s"
  "calls (model_train fw d s) = calls s @ [Train d]"
  by (simp_all add: model_train_def)

text \<open>
  Claim C7. An evaluation call returns the score of the current parameters and changes
  neither the model's parameters nor any other variable (only the record of calls grows);
  a training call changes the parameters and nothing else. In the cells as written, the
  model left in \<open>model\<close> by the hold-out cell is the fresh model trained once on the
  retraining set: the evaluation that follows has not touched it. The K-fold loop body
  stops before it fetches a model, so it makes no call and leaves the model as it was.
\<close>

theorem evaluation_leaves_model_unchanged:
  "fst (model_evaluate fw d s) = evaluate fw (model s) d
   \<and> model (snd (model_evaluate fw d s)) = model s
   \<and> (snd (model_evaluate fw d s))\<lparr>calls := calls s\<rparr> = s
   \<and> model (model_train fw d s) = train fw (model s) d
   \<and> (model_train fw d s)\<lparr>model := model s, calls := calls s\<rparr> = s
   \<and> model (holdout_cell fw n p s)
       = train fw (get_model fw) (retraining_set (holdout_split n p s))
   \<and> kfold_body fw i s
       = Inl (TypeError,
              s\<lparr>validation_data := fold_validation (num_validation_samples s) i (data s)\<rparr>)
   \<and> model (snd (projl (kfold_body fw i s))) = model s
   \<and> calls (snd (projl (kfold_body fw i s))) = calls s"
proof -
  have a: "model (snd (projl (kfold_body fw i s))) = model s"
    by (simp add: kfold_body_raises)
  have b: "calls (snd (projl (kfold_body fw i s))) = calls s"
    by (simp add: kfold_body_raises)
  show ?thesis
    by (intro conjI model_evaluate_frame model_train_frame holdout_cell_fields
        kfold_body_raises a b)
qed

section \<open>Layer shapes and parameter counts\<close>

lemma conv_dim_valid: "1 \<le> k \<Longrightarrow> k \<le> s \<Longrightarrow> conv_dim k s = Some (s - (k - 1))"
  by (simp add: conv_dim_def)

lemma pool_dim_valid: "1 \<le> w \<Longrightarrow> pool_dim w s = Some (s div w)"
  by (simp add: pool_dim_def)

lemma summary_convnet: "summary input_shape convnet_layers = Some printed_convnet"
  by (simp add: input_shape_def convnet_layers_def printed_convnet_def conv_dim_def pool_dim_def)

lemma summary_classifier: "summary [3, 3, 64] classifier_layers = Some printed_classifier"
  by (simp add: classifier_layers_def printed_classifier_def)

lemma summary_full:
  "summary input_shape (convnet_layers @ classifier_layers)
     = Some (printed_convnet @ printed_classifier)"
  by (simp add: input_shape_def convnet_layers_def classifier_layers_def printed_convnet_def
      printed_classifier_def conv_dim_def pool_dim_def)

lemma summary_functional: "summary input_shape functional_layers = Some printed_functional"
  by (simp add: input_shape_def functional_layers_def printed_functional_def conv_dim_def
      pool_dim_def)

text \<open>
  Claim C4. For a kernel size \<open>k \<ge> 1\<close> and a spatial size \<open>s \<ge> k\<close>, an unpadded convolution
  takes \<open>s\<close> to \<open>s - (k - 1)\<close>, and a pooling stage with window \<open>w \<ge> 1\<close> takes \<open>s\<close> to
  \<open>s div w\<close>. The notebook's layers take the 28 \<times> 28 input through 26 \<times> 26, 13 \<times> 13,
  11 \<times> 11, 5 \<times> 5 and 3 \<times> 3, which are the output shapes of the printed table; the
  functional-API variant agrees with its own table as well.
\<close>

theorem convnet_shapes:
  assumes "1 \<le> k" and "k \<le> s" and "1 \<le> w"
  shows "conv_dim k s = Some (s - (k - 1))
       \<and> pool_dim w s = Some (s div w)
       \<and> (k \<le> s' \<longrightarrow> output_shape (Conv2D f (k, k) a) [s, s', c]
             = Some [s - (k - 1), s' - (k - 1), f])
       \<and> output_shape (MaxPooling2D (w, w)) [s, s', c] = Some [s div w, s' div w, c]
       \<and> map_option (map fst) (summary input_shape convnet_layers)
           = Some [[26, 26, 32], [13, 13, 32], [11, 11, 64], [5, 5, 64], [3, 3, 64]]
       \<and> map fst printed_convnet
           = [[26, 26, 32], [13, 13, 32], [11, 11, 64], [5, 5, 64], [3, 3, 64]]
       \<and> map_option (map fst) (summary input_shape functional_layers)
           = Some (map fst printed_functional)"
proof -
  have a: "conv_dim k s = Some (s - (k - 1))"
    using assms(1,2) by (rule conv_dim_valid)
  have b: "pool_dim w s = Some (s div w)"
    using assms(3) by (rule pool_dim_valid)
  have c: "k \<le> s' \<longrightarrow> output_shape (Conv2D f (k, k) a) [s, s', c]
             = Some [s - (k - 1), s' - (k - 1), f]"
    using assms(1,2) by (simp add: conv_dim_def)
  have d: "output_shape (MaxPooling2D (w, w)) [s, s', c] = Some [s div w, s' div w, c]"
    using assms(3) by (simp add: pool_dim_def)
  have e: "map fst printed_convnet
           = [[26, 26, 32], [13, 13, 32], [11, 11, 64], [5, 5, 64], [3, 3, 64]]"
    by (simp add: printed_convnet_def)
  have f: "map_option (map fst) (summary input_shape convnet_layers)
           = Some [[26, 26, 32], [13, 13, 32], [11, 11, 64], [5, 5, 64], [3, 3, 64]]"
    by (simp add: summary_convnet e)
  have g: "map_option (map fst) (summary input_shape functional_layers)
           = Some (map fst printed_functional)"
    by (simp add: summary_functional)
  show ?thesis
    by (intro conjI a b c d e f g)
qed

theorem convnet_shapes_witness:
  "(1::nat) \<le> 3 \<and> (3::nat) \<le> 28 \<and> (1::nat) \<le> 2
   \<and> conv_dim 3 28 = Some 26 \<and> pool_dim 2 26 = Some 13 \<and> conv_dim 3 13 = Some 11
   \<and> pool_dim 2 11 = Some 5 \<and> conv_dim 3 5 = Some 3
   \<and> output_shape (Conv2D 32 (3, 3) Relu) [28, 28, 1] = Some [28 - (3 - 1), 28 - (3 - 1), 32]"
proof -
  have h: "(1::nat) \<le> 3" "(3::nat) \<le> 28" "(1::nat) \<le> 2"
    by simp_all
  have v: "conv_dim 3 28 = Some 26" "pool_dim 2 26 = Some 13" "conv_dim 3 13 = Some 11"
    "pool_dim 2 11 = Some 5" "conv_dim 3 5 = Some 3"
    by (simp_all add: conv_dim_def pool_dim_def)
  note c = convnet_shapes [OF h, of 28 32 Relu 1]
  have "(3::nat) \<le> 28 \<longrightarrow> output_shape (Conv2D 32 (3, 3) Relu) [28, 28, 1]
      = Some [28 - (3 - 1), 28 - (3 - 1), 32]"
    by (rule c [THEN conjunct2, THEN conjunct2, THEN conjunct1])
  then have "output_shape (Conv2D 32 (3, 3) Relu) [28, 28, 1]
      = Some [28 - (3 - 1), 28 - (3 - 1), 32]"
    using h(2) by (rule mp)
  then show ?thesis
    by (intro conjI h v)
qed

text \<open>
  Claim C10. The parameter counts of the printed summary follow from the layer shapes: a
  convolution with \<open>f\<close> filters, a \<open>k \<times> k\<close> kernel and \<open>c\<close> input channels has
  \<open>(k * k * c + 1) * f\<close> parameters, which is 320, 18496 and 36928 for the three
  convolutions; flattening 3 \<times> 3 \<times> 64 gives 576 units; the dense layers have
  \<open>576 * 64 + 64 = 36928\<close> and \<open>64 * 10 + 10 = 650\<close> parameters; the rows computed from the
  layer list are the printed rows, and they add up to the printed total 93322.
\<close>

theorem summary_parameter_counts:
  "param_count (Conv2D f (k, k) a) [h, w, c] = (k * k * c + 1) * f
   \<and> param_count (Dense u a) [n] = n * u + u
   \<and> param_count (Conv2D 32 (3, 3) Relu) [28, 28, 1] = 320
   \<and> param_count (Conv2D 64 (3, 3) Relu) [13, 13, 32] = 18496
   \<and> param_count (Conv2D 64 (3, 3) Relu) [5, 5, 64] = 36928
   \<and> output_shape Flatten [3, 3, 64] = Some [576]
   \<and> param_count (Dense 64 Relu) [576] = 36928
   \<and> param_count (Dense 10 Softmax) [64] = 650
   \<and> summary input_shape convnet_layers = Some printed_convnet
   \<and> total_params printed_convnet = printed_convnet_total
   \<and> summary input_shape (convnet_layers @ classifier_layers)
       = Some (printed_convnet @ printed_classifier)
   \<and> total_params (printed_convnet @ printed_classifier) = printed_total
   \<and> printed_total = 93322"
proof -
  have a: "total_params printed_convnet = printed_convnet_total"
    by (simp add: total_params_def printed_convnet_def printed_convnet_total_def)
  have b: "total_params (printed_convnet @ printed_classifier) = printed_total"
    by (simp add: total_params_def printed_convnet_def printed_classifier_def printed_total_def)
  have c: "printed_total = 93322"
    by (simp add: printed_total_def)
  show ?thesis
    by (intro conjI summary_convnet summary_full a b c) simp_all
qed

end
